theory Spec2Isabelle
  imports Complex_Main "HOL-Library.Log_Nat" "HOL-Library.Monad_Syntax"
begin

section \<open>Layer outputs: core/layer-schema\<close>

text \<open>
  A layer output is a Python dict. Every key the engines read is read with
  \<^verbatim>\<open>.get(key, default)\<close>, so each key is an optional field: \<open>None\<close> is the absent key.
  Scores are Python numbers, taken as exact reals; the scorer and the belief
  computation are given twice, over exact arithmetic and with the rounding of the
  doubles written out. Trajectories, risk levels and flags are strings. A layer map (\<^verbatim>\<open>Dict[str, Dict]\<close>) is the list of its items in
  insertion order, read by key with \<open>map_of\<close>.
\<close>

record layer =
  score :: "real option"
  normalized_score :: "real option"
  trajectory :: "string option"
  risk_level :: "string option"
  risk_flags :: "string list option"
  strength_flags :: "string list option"
  core_signals :: "(string \<times> string) list option"
  raw_data :: "(string \<times> string) list option"

text \<open>\<^verbatim>\<open>LayerOutput.create_empty(reason)\<close>.\<close>

definition create_empty :: "string \<Rightarrow> layer" where
  "create_empty reason =
     \<lparr>score = Some 5,
      normalized_score = Some 0.5,
      trajectory = Some ''unknown'',
      risk_level = Some ''medium'',
      risk_flags = Some [],
      strength_flags = Some [],
      core_signals = Some [(''note'', reason)],
      raw_data = Some []\<rparr>"

text \<open>The empty dict \<^verbatim>\<open>{}\<close>, the default of \<^verbatim>\<open>layers.get(name, {})\<close>.\<close>

definition empty_dict :: layer where
  "empty_dict =
     \<lparr>score = None, normalized_score = None, trajectory = None, risk_level = None,
      risk_flags = None, strength_flags = None, core_signals = None, raw_data = None\<rparr>"

text \<open>\<^verbatim>\<open>d.get(key, default)\<close> on an optional field, and \<^verbatim>\<open>layers.get(name, {})\<close>.\<close>

definition get_or :: "'a option \<Rightarrow> 'a \<Rightarrow> 'a" where
  "get_or v dflt = (case v of None \<Rightarrow> dflt | Some x \<Rightarrow> x)"

definition layers_get :: "(string \<times> layer) list \<Rightarrow> string \<Rightarrow> layer" where
  "layers_get layers name = get_or (map_of layers name) empty_dict"

text \<open>\<^verbatim>\<open>sep.join(parts)\<close>.\<close>

fun join :: "string \<Rightarrow> string list \<Rightarrow> string" where
  "join sep [] = []"
| "join sep [p] = p"
| "join sep (p # q # ps) = p @ sep @ join sep (q # ps)"

text \<open>\<^verbatim>\<open>key.startswith('_')\<close>.\<close>

definition startswith_underscore :: "string \<Rightarrow> bool" where
  "startswith_underscore k = (take 1 k = ''_'')"

text \<open>
  \<^verbatim>\<open>numpy.std\<close>: the population standard deviation. The caller guards the empty list.
\<close>

definition np_std :: "real list \<Rightarrow> real" where
  "np_std xs =
     (let n = real (length xs);
          mean = sum_list xs / n
      in sqrt (sum_list (map (\<lambda>x. (x - mean)\<^sup>2) xs) / n))"

text \<open>
  \<^verbatim>\<open>round(x, ndigits)\<close> over exact numbers: the nearest multiple of \<open>10^-ndigits\<close>,
  a tie going to the even one.
\<close>

definition round_half_even :: "real \<Rightarrow> int" where
  "round_half_even x =
     (let f = \<lfloor>x\<rfloor>; d = x - of_int f
      in if d < 1 / 2 then f
         else if d > 1 / 2 then f + 1
         else if even f then f else f + 1)"

definition py_round :: "real \<Rightarrow> nat \<Rightarrow> real" where
  "py_round x ndigits = of_int (round_half_even (x * 10 ^ ndigits)) / 10 ^ ndigits"

section \<open>IEEE double precision\<close>

text \<open>
  Python's \<^verbatim>\<open>float\<close> is the IEEE 754 binary64 format: every operation returns the
  exact result rounded to the nearest number with a 53-bit significand, a tie going to
  the even significand. A double is the real number it denotes. \<open>double_exponent x\<close>
  is the \<open>e\<close> with \<open>2^e \<le> |x| < 2^(e+1)\<close>; below \<open>2^-1022\<close> the spacing of
  the subnormal numbers stays \<open>2^-1074\<close>. A result whose rounding reaches \<open>2^1024\<close>
  is an infinity in Python: \<open>to_double\<close> returns \<open>None\<close> for it, and the double
  precision functions below return \<open>None\<close> when a value leaves the finite range (no
  exception is raised there; the infinities and NaN are not part of this model).
  A Python \<^verbatim>\<open>int\<close> is taken as the double of the same value, which it equals below
  \<open>2^53\<close>.
\<close>

definition pow2 :: "int \<Rightarrow> real" where
  "pow2 e = (if 0 \<le> e then 2 ^ nat e else 1 / 2 ^ nat (- e))"

definition double_exponent :: "real \<Rightarrow> int" where
  "double_exponent x =
     (let a = \<bar>x\<bar>
      in if a \<ge> 1 then bitlen \<lfloor>a\<rfloor> - 1
         else (let k = bitlen \<lfloor>1 / a\<rfloor> - 1
               in if a * 2 ^ nat k = 1 then - k else - k - 1))"

definition round_to_double :: "real \<Rightarrow> real" where
  "round_to_double x =
     (if x = 0 then 0
      else (let q = pow2 (max (double_exponent x) (- 1022) - 52)
            in of_int (round_half_even (x / q)) * q))"


section \<open>Industry weights: the engine constructor and get-weights\<close>

text \<open>
  The weight table is the content of \<^verbatim>\<open>config/industry_weights.json\<close>, which is a
  parameter here: a JSON object from sector or industry names to objects from keys to
  numbers (\<^verbatim>\<open>Dict[str, float]\<close> in the signature of \<^verbatim>\<open>_get_weights\<close>).
  Leading underscores of the Python method names are dropped.
\<close>

type_synonym weights = "(string \<times> real) list"

record engine =
  industry_weights :: "(string \<times> weights) list"
  default_weights :: weights

definition init :: "(string \<times> weights) list \<Rightarrow> engine" where
  "init table =
     \<lparr>industry_weights = table,
      default_weights = get_or (map_of table ''_default_weights'') []\<rparr>"

text \<open>
  \<^verbatim>\<open>if industry and industry in self.industry_weights\<close>: \<open>None\<close> and the empty string
  are both falsy.
\<close>

definition get_weights :: "engine \<Rightarrow> string option \<Rightarrow> string option \<Rightarrow> weights" where
  "get_weights self sector industry =
     (if industry \<noteq> None \<and> industry \<noteq> Some [] \<and> map_of (industry_weights self) (the industry) \<noteq> None
      then filter (\<lambda>(k, v). \<not> startswith_underscore k) (the (map_of (industry_weights self) (the industry)))
      else if sector \<noteq> None \<and> sector \<noteq> Some [] \<and> map_of (industry_weights self) (the sector) \<noteq> None
      then filter (\<lambda>(k, v). \<not> startswith_underscore k) (the (map_of (industry_weights self) (the sector)))
      else default_weights self)"

section \<open>Structural pattern analysis\<close>

record structural =
  disqualify :: bool
  amplify :: bool
  override_rules_triggered :: "string list"
  pattern_matches :: "string list"
  cross_layer_signals :: "(string \<times> string) list"

text \<open>\<^verbatim>\<open>layer.get('risk_flags', [])\<close>.\<close>

definition flags_of :: "layer \<Rightarrow> string list" where
  "flags_of l = get_or (risk_flags l) []"

text \<open>The conditions of the five override rules, as the source tests them.\<close>

definition rule_1 :: "(string \<times> layer) list \<Rightarrow> bool" where
  "rule_1 layers =
     (let financial = layers_get layers ''financial_truth'';
          management = layers_get layers ''management''
      in (risk_level financial \<in> set [Some ''critical'', Some ''high''] \<and>
          ''NEGATIVE_FREE_CASH_FLOW'' \<in> set (flags_of financial)) \<and>
         ''INSIDER_HEAVY_SELLING'' \<in> set (flags_of management))"

definition rule_2 :: "(string \<times> layer) list \<Rightarrow> bool" where
  "rule_2 layers =
     (let business = layers_get layers ''business_model'';
          financial = layers_get layers ''financial_truth''
      in ''DECLINING_REVENUE'' \<in> set (flags_of business) \<and>
         ''REVENUE_UP_CASH_DOWN'' \<in> set (flags_of financial))"

definition rule_3 :: "(string \<times> layer) list \<Rightarrow> bool" where
  "rule_3 layers =
     (let financial = layers_get layers ''financial_truth''
      in ''NEGATIVE_FREE_CASH_FLOW'' \<in> set (flags_of financial) \<and>
         ''HIGH_DEBT_TO_EBITDA'' \<in> set (flags_of financial))"

definition rule_4 :: "(string \<times> layer) list \<Rightarrow> bool" where
  "rule_4 layers =
     (let financial = layers_get layers ''financial_truth''
      in ''LOW_INTEREST_COVERAGE'' \<in> set (flags_of financial) \<and>
         trajectory financial = Some ''deteriorating'')"

definition rule_5 :: "(string \<times> layer) list \<Rightarrow> bool" where
  "rule_5 layers =
     (let business = layers_get layers ''business_model'';
          competitive = layers_get layers ''competitive''
      in risk_level competitive \<in> set [Some ''high'', Some ''critical''] \<and>
         ''LOW_MARGINS'' \<in> set (flags_of business))"

text \<open>The two effects a rule can have on the analysis under construction.\<close>

definition disqualify_with :: "string \<Rightarrow> structural \<Rightarrow> structural" where
  "disqualify_with msg analysis =
     analysis\<lparr>disqualify := True,
              override_rules_triggered := override_rules_triggered analysis @ [msg]\<rparr>"

definition warn_with :: "string \<Rightarrow> structural \<Rightarrow> structural" where
  "warn_with msg analysis =
     analysis\<lparr>override_rules_triggered := override_rules_triggered analysis @ [msg]\<rparr>"

definition apply_override_rules :: "(string \<times> layer) list \<Rightarrow> structural \<Rightarrow> structural" where
  "apply_override_rules layers analysis =
     (let analysis = (if rule_1 layers
            then disqualify_with
              ''FINANCIAL_DISTRESS + INSIDER_SELLING = Management bailing before bankruptcy'' analysis
            else analysis);
          analysis = (if rule_2 layers
            then disqualify_with
              ''DECLINING_REVENUE + CASH_FLOW_DETERIORATION = Business dying'' analysis
            else analysis);
          analysis = (if rule_3 layers
            then disqualify_with
              ''NEGATIVE_FCF + HIGH_DEBT = Cannot service debt, distress imminent'' analysis
            else analysis);
          analysis = (if rule_4 layers
            then disqualify_with
              ''LOW_COVERAGE + DETERIORATING = Death spiral beginning'' analysis
            else analysis);
          analysis = (if rule_5 layers
            then warn_with
              ''COMPETITIVE_PRESSURE + LOW_MARGINS = No moat, commodity pricing'' analysis
            else analysis)
      in analysis)"

text \<open>The amplification rules and the consistency check, in the source's order.\<close>

definition amplification_rules :: "(string \<times> layer) list \<Rightarrow> structural \<Rightarrow> structural" where
  "amplification_rules layers analysis =
     (let business = layers_get layers ''business_model'';
          financial = layers_get layers ''financial_truth'';
          analysis = (if get_or (score business) 0 \<ge> 7 \<and> get_or (score financial) 0 \<ge> 7
            then analysis\<lparr>amplify := True,
                          pattern_matches := pattern_matches analysis @ [''STRONG_FUNDAMENTALS'']\<rparr>
            else analysis);
          trajectories = map (\<lambda>(name, layer). trajectory layer) layers;
          improving_count = count_list trajectories (Some ''improving'');
          deteriorating_count = count_list trajectories (Some ''deteriorating'');
          analysis = (if improving_count \<ge> 3 \<and> deteriorating_count = 0
            then analysis\<lparr>amplify := True,
                          pattern_matches := pattern_matches analysis @ [''BROAD_IMPROVEMENT'']\<rparr>
            else analysis);
          analysis = (if get_or (score business) 0 \<ge> 8 \<and> trajectory financial = Some ''improving''
            then analysis\<lparr>pattern_matches := pattern_matches analysis @ [''COMPOUNDER_PROFILE'']\<rparr>
            else analysis)
      in analysis)"

definition consistency_check :: "(string \<times> layer) list \<Rightarrow> structural \<Rightarrow> structural" where
  "consistency_check layers analysis =
     (let scores = List.map_filter (\<lambda>(name, layer). score layer) layers
      in if scores \<noteq> []
         then (let score_std = np_std scores
               in if score_std < 2
                  then analysis\<lparr>cross_layer_signals :=
                         cross_layer_signals analysis @ [(''consistency'', ''HIGH'')]\<rparr>
                  else if score_std > 4
                  then analysis\<lparr>cross_layer_signals :=
                         cross_layer_signals analysis @ [(''consistency'', ''CONFLICTING'')],
                       pattern_matches := pattern_matches analysis @ [''MIXED_SIGNALS'']\<rparr>
                  else analysis)
         else analysis)"

definition analyze_structural_patterns :: "(string \<times> layer) list \<Rightarrow> structural" where
  "analyze_structural_patterns layers =
     (let analysis = \<lparr>disqualify = False, amplify = False, override_rules_triggered = [],
                      pattern_matches = [], cross_layer_signals = []\<rparr>;
          analysis = apply_override_rules layers analysis;
          analysis = amplification_rules layers analysis;
          analysis = consistency_check layers analysis
      in analysis)"

section \<open>Weighted score\<close>

record score_data =
  raw :: real
  weight :: real
  weighted :: real

definition layer_mapping :: "(string \<times> string) list" where
  "layer_mapping =
     [(''business_model'', ''business_model''),
      (''financial_truth'', ''financial_truth''),
      (''management'', ''management''),
      (''market_structure'', ''market_structure''),
      (''competitive'', ''competitive''),
      (''macro'', ''macro''),
      (''risk'', ''risk'')]"

text \<open>
  The loop over \<^verbatim>\<open>layer_mapping.items()\<close>; the accumulator is
  \<open>(weighted_total, weight_sum, breakdown)\<close>. First over exact arithmetic.
\<close>

fun accumulate ::
  "(string \<times> layer) list \<Rightarrow> weights \<Rightarrow> (string \<times> string) list \<Rightarrow>
   real \<times> real \<times> (string \<times> score_data) list \<Rightarrow> real \<times> real \<times> (string \<times> score_data) list" where
  "accumulate layers weights [] acc = acc"
| "accumulate layers weights ((layer_key, weight_key) # rest) (weighted_total, weight_sum, breakdown) =
     (case map_of layers layer_key of
        None \<Rightarrow> accumulate layers weights rest (weighted_total, weight_sum, breakdown)
      | Some layer_data \<Rightarrow>
          (let raw_score = get_or (score layer_data) 5;
               weight = get_or (map_of weights weight_key) 1.0;
               weighted_score = raw_score * weight
           in accumulate layers weights rest
                (weighted_total + weighted_score,
                 weight_sum + weight,
                 breakdown @ [(layer_key, \<lparr>raw = raw_score, weight = weight, weighted = weighted_score\<rparr>)])))"

definition calculate_weighted_score ::
  "(string \<times> layer) list \<Rightarrow> weights \<Rightarrow> real \<times> (string \<times> score_data) list" where
  "calculate_weighted_score layers weights =
     (let (weighted_total, weight_sum, breakdown) = accumulate layers weights layer_mapping (0, 0, []);
          max_possible = 10 * weight_sum;
          normalized_score = (if max_possible > 0 then (weighted_total / max_possible) * 100 else 50)
      in (normalized_score, breakdown))"



section \<open>Belief state\<close>

text \<open>
  The belief computation in three stages of the one source function: the
  multiplicative updates from the layer evidence, the structural override, and the
  normalisation that builds the returned dict. First over exact arithmetic.
\<close>

definition belief_evidence :: "(string \<times> layer) list \<Rightarrow> real \<times> real \<times> real" where
  "belief_evidence layers =
     (let bull_prob = 0.3;
          bear_prob = 0.2;
          distress_prob = 0.05;
          financial = layers_get layers ''financial_truth'';
          distress_prob =
            (if risk_level financial = Some ''critical'' then distress_prob * 5
             else if risk_level financial = Some ''high'' then distress_prob * 3
             else distress_prob);
          business = layers_get layers ''business_model'';
          (bull_prob, bear_prob) =
            (if get_or (score business) 5 \<ge> 8 then (bull_prob * 2, bear_prob)
             else if get_or (score business) 5 \<le> 3 then (bull_prob * 0.3, bear_prob * 2)
             else (bull_prob, bear_prob));
          trajectories = map (\<lambda>(name, layer). trajectory layer) layers;
          improving_count = count_list trajectories (Some ''improving'');
          deteriorating_count = count_list trajectories (Some ''deteriorating'');
          bull_prob = (if improving_count \<ge> 3 then bull_prob * 1.5 else bull_prob);
          (bear_prob, distress_prob) =
            (if deteriorating_count \<ge> 3 then (bear_prob * 2, distress_prob * 1.5)
             else (bear_prob, distress_prob))
      in (bull_prob, bear_prob, distress_prob))"

definition structural_override :: "structural \<Rightarrow> real \<times> real \<times> real \<Rightarrow> real \<times> real \<times> real" where
  "structural_override structural_analysis probs =
     (let (bull_prob, bear_prob, distress_prob) = probs
      in if disqualify structural_analysis
         then (0.05, 0.7, min (distress_prob * 2) 0.5)
         else (bull_prob, bear_prob, distress_prob))"

record belief =
  bull_prob :: real
  bear_prob :: real
  distress_prob :: real
  neutral_prob :: real

definition normalize_probabilities :: "real \<times> real \<times> real \<Rightarrow> belief" where
  "normalize_probabilities probs =
     (let (bull_prob, bear_prob, distress_prob) = probs;
          total = bull_prob + bear_prob + distress_prob;
          (bull_prob, bear_prob, distress_prob) =
            (if total > 1 then (bull_prob / total, bear_prob / total, distress_prob / total)
             else (bull_prob, bear_prob, distress_prob))
      in \<lparr>bull_prob = bull_prob,
          bear_prob = bear_prob,
          distress_prob = distress_prob,
          neutral_prob = 1 - bull_prob - bear_prob - distress_prob\<rparr>)"

definition compute_belief_state :: "(string \<times> layer) list \<Rightarrow> structural \<Rightarrow> belief" where
  "compute_belief_state layers structural_analysis =
     normalize_probabilities (structural_override structural_analysis (belief_evidence layers))"





section \<open>Action resolution\<close>

text \<open>
  The reasoning strings interpolate numbers with the format specifications
  \<^verbatim>\<open>:.0%\<close> and \<^verbatim>\<open>:.0f\<close>. The rendering of a number is a parameter.
\<close>

record number_format =
  percent0 :: "real \<Rightarrow> string"
  fixed0 :: "real \<Rightarrow> string"

text \<open>
  The rendering over exact numbers: \<^verbatim>\<open>:.0f\<close> rounds to the nearest integer, ties
  to even, and prints the sign of a negative number; \<^verbatim>\<open>:.0%\<close> does so for a hundred
  times the number and appends the percent sign.
\<close>

fun show_nat :: "nat \<Rightarrow> string" where
  "show_nat n =
     (if n < 10 then [''0123456789'' ! n]
      else show_nat (n div 10) @ [''0123456789'' ! (n mod 10)])"

definition format_fixed0 :: "real \<Rightarrow> string" where
  "format_fixed0 x = (if x < 0 then ''-'' else []) @ show_nat (nat \<bar>round_half_even x\<bar>)"

definition format_percent0 :: "real \<Rightarrow> string" where
  "format_percent0 x = format_fixed0 (x * 100) @ ''%''"

definition exact_format :: number_format where
  "exact_format = \<lparr>percent0 = format_percent0, fixed0 = format_fixed0\<rparr>"

definition determine_action ::
  "number_format \<Rightarrow> real \<Rightarrow> structural \<Rightarrow> belief \<Rightarrow> (string \<times> layer) list \<Rightarrow>
   string \<times> string \<times> string" where
  "determine_action fmt weighted_score structural_analysis belief_state layers =
     (if disqualify structural_analysis
      then (''AVOID'', ''DO_NOT_TRADE'',
            ''Structural disqualifiers: '' @
              join '', '' (override_rules_triggered structural_analysis))
      else if distress_prob belief_state > 0.2
      then (''SHORT'', ''SHORT_CANDIDATE'',
            ''High bankruptcy risk ('' @ percent0 fmt (distress_prob belief_state) @ '')'')
      else if bear_prob belief_state > 0.5
      then (''SHORT'', ''SHORT_CANDIDATE'',
            ''Structural bear case ('' @ percent0 fmt (bear_prob belief_state) @ '' probability)'')
      else if bull_prob belief_state > 0.6 \<and> weighted_score \<ge> 70
      then (let reasoning =
                  ''High conviction structural winner (P='' @ percent0 fmt (bull_prob belief_state) @
                  '', Score='' @ fixed0 fmt weighted_score @ '')'';
                reasoning =
                  (if amplify structural_analysis
                   then reasoning @ '' | Amplified by: '' @
                          join '', '' (pattern_matches structural_analysis)
                   else reasoning)
            in (''HIGH'', ''BUY_HIGH_CONVICTION'', reasoning))
      else if weighted_score \<ge> 65
      then (''MEDIUM'', ''BUY_MEDIUM'',
            ''Solid setup (Score='' @ fixed0 fmt weighted_score @ '', Bull P='' @
              percent0 fmt (bull_prob belief_state) @ '')'')
      else if weighted_score \<ge> 55
      then (''LOW'', ''TRADE_ONLY'',
            ''Marginal case (Score='' @ fixed0 fmt weighted_score @ ''), short-term only'')
      else if weighted_score \<ge> 40
      then (''AVOID'', ''SPECULATION_ONLY'',
            ''Weak case (Score='' @ fixed0 fmt weighted_score @ ''), too many red flags'')
      else (''AVOID'', ''DO_NOT_TRADE'',
            ''Poor fundamentals (Score='' @ fixed0 fmt weighted_score @ '')''))"

section \<open>Synthesis\<close>

record synthesis_result =
  ticker :: string
  weighted_score :: real
  raw_score :: real
  conviction :: string
  action :: string
  reasoning :: string
  weights_used :: weights
  score_breakdown :: "(string \<times> score_data) list"
  structural_analysis :: structural
  belief_state :: belief
  disqualified :: bool
  override_rules :: "string list"

text \<open>
  \<^verbatim>\<open>synthesize\<close>; its progress output is not part of the result and is left out.
  The parameter \<^verbatim>\<open>ticker\<close> is primed, the name being the result's key.
\<close>

definition synthesize ::
  "engine \<Rightarrow> number_format \<Rightarrow> (string \<times> layer) list \<Rightarrow> string \<Rightarrow> string option \<Rightarrow>
   string option \<Rightarrow> synthesis_result" where
  "synthesize self fmt layers ticker' sector industry =
     (let weights = get_weights self sector industry;
          structural_analysis = analyze_structural_patterns layers;
          (weighted_score, score_breakdown) = calculate_weighted_score layers weights;
          belief_state = compute_belief_state layers structural_analysis;
          (conviction, action, reasoning) =
            determine_action fmt weighted_score structural_analysis belief_state layers
      in \<lparr>ticker = ticker',
          weighted_score = py_round weighted_score 2,
          raw_score = sum_list (map (\<lambda>(name, l). get_or (score l) 5) layers),
          conviction = conviction,
          action = action,
          reasoning = reasoning,
          weights_used = weights,
          score_breakdown = score_breakdown,
          structural_analysis = structural_analysis,
          belief_state = belief_state,
          disqualified = disqualify structural_analysis,
          override_rules = override_rules_triggered structural_analysis\<rparr>)"

section \<open>Temporal engine\<close>

text \<open>
  The cache directory holds one JSON file per ticker; it is the list of the files'
  names (the tickers) with their contents. A snapshot's layers carry the five keys
  that \<^verbatim>\<open>save_analysis\<close> stores, the other fields of \<open>layer\<close> being absent.
  The current time is a parameter. Parameters named like a key of a record are primed.
\<close>

record snapshot =
  timestamp :: string
  layers :: "(string \<times> layer) list"
  synthesis :: synthesis_result
  version :: string

record history =
  ticker :: string
  first_analyzed :: string
  analyses :: "snapshot list"
  last_updated :: "string option"

text \<open>
  The analysis dict that \<^verbatim>\<open>save_analysis\<close> receives, by the one key it reads.
  Its layer values are dicts; the source skips a value that is not a dict.
\<close>

record analysis =
  analysis_layers :: "(string \<times> layer) list option"

fun write_file :: "(string \<times> 'a) list \<Rightarrow> string \<Rightarrow> 'a \<Rightarrow> (string \<times> 'a) list" where
  "write_file [] name content = [(name, content)]"
| "write_file ((n, c) # files) name content =
     (if n = name then (name, content) # files else (n, c) # write_file files name content)"

definition save_analysis ::
  "(string \<times> history) list \<Rightarrow> string \<Rightarrow> string \<Rightarrow> analysis \<Rightarrow> synthesis_result \<Rightarrow>
   (string \<times> history) list" where
  "save_analysis cache now ticker' analysis' synthesis' =
     (let history =
            (case map_of cache ticker' of
               Some stored \<Rightarrow> stored
             | None \<Rightarrow> \<lparr>ticker = ticker', first_analyzed = now, analyses = [],
                        last_updated = None\<rparr>);
          snapshot_layers =
            map (\<lambda>(layer_name, layer_data).
                   (layer_name,
                    \<lparr>score = Some (get_or (score layer_data) 0),
                     normalized_score = None,
                     trajectory = Some (get_or (trajectory layer_data) ''unknown''),
                     risk_level = Some (get_or (risk_level layer_data) ''unknown''),
                     risk_flags = Some (get_or (risk_flags layer_data) []),
                     strength_flags = Some (get_or (strength_flags layer_data) []),
                     core_signals = None,
                     raw_data = None\<rparr>))
                (get_or (analysis_layers analysis') []);
          snapshot = \<lparr>timestamp = now, layers = snapshot_layers, synthesis = synthesis',
                      version = ''2.0''\<rparr>;
          history = history\<lparr>analyses := analyses history @ [snapshot], last_updated := Some now\<rparr>
      in write_file cache ticker' history)"

record layer_change =
  previous :: real
  latest :: real
  delta :: real
  direction :: string
  trajectory_previous :: string
  trajectory_latest :: string

record momentum =
  average_layer_delta :: real
  direction :: string
  acceleration :: string

text \<open>
  The delta record, by its timestamps, layer changes and momentum; an empty momentum
  dict is \<open>None\<close>. The risk drift, the conviction change and the summary are computed
  from the same two snapshots after the momentum and do not feed back into it; they are
  not part of this model.
\<close>

record deltas =
  timestamp_latest :: string
  timestamp_previous :: string
  layer_changes :: "(string \<times> layer_change) list"
  momentum :: "momentum option"

text \<open>The layer names of the loop: those of the latest snapshot also in the previous one.\<close>

definition shared_layers :: "snapshot \<Rightarrow> snapshot \<Rightarrow> string list" where
  "shared_layers latest' previous' =
     filter (\<lambda>layer_name. map_of (layers previous') layer_name \<noteq> None)
       (map fst (layers latest'))"

definition score_delta :: "snapshot \<Rightarrow> snapshot \<Rightarrow> string \<Rightarrow> real" where
  "score_delta latest' previous' layer_name =
     (let latest_score = get_or (score (the (map_of (layers latest') layer_name))) 0;
          previous_score = get_or (score (the (map_of (layers previous') layer_name))) 0
      in latest_score - previous_score)"

definition compute_deltas :: "snapshot \<Rightarrow> snapshot \<Rightarrow> history \<Rightarrow> deltas" where
  "compute_deltas latest' previous' full_history =
     (let latest_layers = layers latest';
          previous_layers = layers previous';
          names = shared_layers latest' previous';
          score_changes = map (score_delta latest' previous') names;
          changes =
            map (\<lambda>layer_name.
                   (let latest_score = get_or (score (the (map_of latest_layers layer_name))) 0;
                        previous_score = get_or (score (the (map_of previous_layers layer_name))) 0;
                        delta = latest_score - previous_score
                    in (layer_name,
                        \<lparr>previous = previous_score,
                         latest = latest_score,
                         delta = py_round delta 2,
                         direction = (if delta > 0 then ''improving''
                                      else if delta < 0 then ''deteriorating'' else ''stable''),
                         trajectory_previous =
                           get_or (trajectory (the (map_of previous_layers layer_name))) ''unknown'',
                         trajectory_latest =
                           get_or (trajectory (the (map_of latest_layers layer_name))) ''unknown''\<rparr>)))
                names;
          momentum =
            (if score_changes \<noteq> []
             then (let avg_delta = sum_list score_changes / real (length score_changes)
                   in Some \<lparr>average_layer_delta = py_round avg_delta 2,
                            direction = (if avg_delta > 0.5 then ''IMPROVING''
                                         else if avg_delta < - 0.5 then ''DETERIORATING''
                                         else ''STABLE''),
                            acceleration = (if avg_delta > 1.0 then ''ACCELERATING''
                                            else if avg_delta < - 1.0 then ''DECELERATING''
                                            else ''STEADY'')\<rparr>)
             else None)
      in \<lparr>timestamp_latest = timestamp latest',
          timestamp_previous = timestamp previous',
          layer_changes = changes,
          momentum = momentum\<rparr>)"

text \<open>
  \<^verbatim>\<open>get_temporal_analysis\<close> returns \<^verbatim>\<open>None\<close>, the note dict or the delta dict.
\<close>

datatype temporal_analysis =
  Insufficient_history string nat
| Delta deltas

definition get_temporal_analysis ::
  "(string \<times> history) list \<Rightarrow> string \<Rightarrow> temporal_analysis option" where
  "get_temporal_analysis cache ticker' =
     (case map_of cache ticker' of
        None \<Rightarrow> None
      | Some history \<Rightarrow>
          if length (analyses history) < 2
          then Some (Insufficient_history ''Insufficient history (need 2+ analyses)''
                       (length (analyses history)))
          else (let latest' = last (analyses history);
                    previous' = analyses history ! (length (analyses history) - 2)
                in Some (Delta (compute_deltas latest' previous' history))))"

section \<open>Notions used in the statements\<close>

text \<open>
  The layers that \<^verbatim>\<open>framework.py\<close> hands to the engine when analyzers failed:
  each named layer is \<^verbatim>\<open>LayerOutput.create_empty(reason)\<close> for its own reason.
\<close>

definition empty_layers :: "(string \<times> string) list \<Rightarrow> (string \<times> layer) list" where
  "empty_layers named_reasons = map (\<lambda>(name, reason). (name, create_empty reason)) named_reasons"






text \<open>
  The number of snapshots stored for a ticker (none without a history file), whether a
  result of \<^verbatim>\<open>get_temporal_analysis\<close> is a delta record, and the mean of the
  per-layer score deltas of two snapshots.
\<close>

definition snapshot_count :: "(string \<times> history) list \<Rightarrow> string \<Rightarrow> nat" where
  "snapshot_count cache ticker' =
     (case map_of cache ticker' of None \<Rightarrow> 0 | Some stored \<Rightarrow> length (analyses stored))"

fun is_delta :: "temporal_analysis option \<Rightarrow> bool" where
  "is_delta (Some (Delta d)) = True"
| "is_delta (Some (Insufficient_history note n)) = False"
| "is_delta None = False"


section \<open>Example inputs\<close>

text \<open>
  A financial layer in distress (negative free cash flow with high debt) beside a
  neutral business layer; a business with low margins under competitive pressure;
  the same two layers in good health.
\<close>

definition distressed_layers :: "(string \<times> layer) list" where
  "distressed_layers =
     [(''financial_truth'',
       \<lparr>score = Some 4, normalized_score = Some 0.4, trajectory = Some ''deteriorating'',
        risk_level = Some ''critical'',
        risk_flags = Some [''NEGATIVE_FREE_CASH_FLOW'', ''HIGH_DEBT_TO_EBITDA''],
        strength_flags = Some [], core_signals = Some [], raw_data = Some []\<rparr>),
      (''business_model'', create_empty ''No data'')]"

definition commodity_layers :: "(string \<times> layer) list" where
  "commodity_layers =
     [(''business_model'',
       \<lparr>score = Some 6, normalized_score = Some 0.6, trajectory = Some ''stable'',
        risk_level = Some ''low'', risk_flags = Some [''LOW_MARGINS''],
        strength_flags = Some [], core_signals = Some [], raw_data = Some []\<rparr>),
      (''competitive'',
       \<lparr>score = Some 3, normalized_score = Some 0.3, trajectory = Some ''stable'',
        risk_level = Some ''high'', risk_flags = Some [''SLOW_COLLECTIONS''],
        strength_flags = Some [], core_signals = Some [], raw_data = Some []\<rparr>)]"

definition healthy_layers :: "(string \<times> layer) list" where
  "healthy_layers =
     [(''financial_truth'',
       \<lparr>score = Some 6, normalized_score = Some 0.6, trajectory = Some ''stable'',
        risk_level = Some ''minimal'', risk_flags = Some [],
        strength_flags = Some [], core_signals = Some [], raw_data = Some []\<rparr>),
      (''business_model'',
       \<lparr>score = Some 7, normalized_score = Some 0.7, trajectory = Some ''stable'',
        risk_level = Some ''minimal'', risk_flags = Some [],
        strength_flags = Some [], core_signals = Some [], raw_data = Some []\<rparr>)]"






definition bullish_belief :: belief where
  "bullish_belief =
     \<lparr>bull_prob = 0.9, bear_prob = 0.05, distress_prob = 0.01, neutral_prob = 0.04\<rparr>"

text \<open>A weight table whose default entry carries a key with a leading underscore.\<close>

definition private_default_table :: "(string \<times> weights) list" where
  "private_default_table =
     [(''_default_weights'', [(''_comment'', 1), (''business_model'', 1.5)]),
      (''Technology'', [(''_description'', 0), (''business_model'', 4)])]"

text \<open>Two analyses of one ticker, saved one after the other into an empty cache.\<close>

definition healthy_synthesis :: synthesis_result where
  "healthy_synthesis = synthesize (init []) exact_format healthy_layers ''ACME'' None None"

definition distressed_synthesis :: synthesis_result where
  "distressed_synthesis = synthesize (init []) exact_format distressed_layers ''ACME'' None None"

definition one_save :: "(string \<times> history) list" where
  "one_save =
     save_analysis [] ''2025-01-06T09:30:00'' ''ACME''
       \<lparr>analysis_layers = Some healthy_layers\<rparr> healthy_synthesis"

definition two_saves :: "(string \<times> history) list" where
  "two_saves =
     save_analysis one_save ''2025-04-07T09:30:00'' ''ACME''
       \<lparr>analysis_layers = Some distressed_layers\<rparr> distressed_synthesis"




section \<open>An executable form of the consistency check\<close>

text \<open>
  The standard deviation is a square root; its comparisons with 2 and 4 are
  comparisons of the variance with 4 and 16, which evaluate.
\<close>

lemma sqrt_less_2: "0 \<le> v \<Longrightarrow> sqrt v < 2 \<longleftrightarrow> v < 4"
  using real_sqrt_less_iff [of v 4] by simp

lemma sqrt_greater_4: "0 \<le> v \<Longrightarrow> sqrt v > 4 \<longleftrightarrow> v > 16"
  using real_sqrt_less_iff [of 16 v] real_sqrt_abs [of 4] by simp

lemma variance_nonneg: "0 \<le> sum_list (map (\<lambda>x. (x - m)\<^sup>2) xs) / real (length xs)"
  by (intro divide_nonneg_nonneg sum_list_nonneg) auto

lemma consistency_check_code [code]:
  "consistency_check ls a =
     (let scores = List.map_filter (\<lambda>(name, layer). score layer) ls
      in if scores \<noteq> []
         then (let n = real (length scores);
                   mean = sum_list scores / n;
                   variance = sum_list (map (\<lambda>x. (x - mean)\<^sup>2) scores) / n
               in if variance < 4
                  then a\<lparr>cross_layer_signals :=
                         cross_layer_signals a @ [(''consistency'', ''HIGH'')]\<rparr>
                  else if variance > 16
                  then a\<lparr>cross_layer_signals :=
                         cross_layer_signals a @ [(''consistency'', ''CONFLICTING'')],
                       pattern_matches := pattern_matches a @ [''MIXED_SIGNALS'']\<rparr>
                  else a)
         else a)"
  by (simp add: consistency_check_def np_std_def Let_def sqrt_less_2 sqrt_greater_4
        variance_nonneg)

section \<open>Properties of the double rounding\<close>

text \<open>
  The exponent brackets the magnitude, and the rounded value lies within half a unit
  of the last place of the exact one.
\<close>

lemma pow2_nonneg_exp: "0 \<le> e \<Longrightarrow> pow2 e = 2 ^ nat e"
  by (simp add: pow2_def)

lemma pow2_neg_exp: "e \<le> 0 \<Longrightarrow> pow2 e = 1 / 2 ^ nat (- e)"
  by (cases "e = 0") (simp_all add: pow2_def)

lemma pow2_pos: "0 < pow2 e"
  by (simp add: pow2_def)

lemma floor_bitlen_bounds:
  assumes "1 \<le> (a::real)"
  shows "2 ^ nat (bitlen \<lfloor>a\<rfloor> - 1) \<le> a \<and> a < 2 ^ nat (bitlen \<lfloor>a\<rfloor>) \<and> 1 \<le> bitlen \<lfloor>a\<rfloor>"
proof -
  define m where "m = \<lfloor>a\<rfloor>"
  have m: "0 < m" using assms by (simp add: m_def)
  have b: "2 ^ nat (bitlen m - 1) \<le> m" "m < 2 ^ nat (bitlen m)"
    using bitlen_bounds [OF m] by simp_all
  have "real_of_int (2 ^ nat (bitlen m - 1)) \<le> real_of_int m"
    using b(1) by (simp only: of_int_le_iff)
  also have "\<dots> \<le> a" by (simp add: m_def)
  finally have lo: "2 ^ nat (bitlen m - 1) \<le> a" by simp
  have "m + 1 \<le> 2 ^ nat (bitlen m)" using b(2) by simp
  then have "real_of_int (m + 1) \<le> real_of_int (2 ^ nat (bitlen m))"
    by (simp only: of_int_le_iff)
  moreover have "a < real_of_int (m + 1)" by (simp add: m_def)
  ultimately have hi: "a < 2 ^ nat (bitlen m)" by simp
  have "1 \<le> bitlen m" using m by (simp add: bitlen_alt_def)
  with lo hi show ?thesis by (simp add: m_def)
qed

lemma double_exponent_bounds:
  assumes "x \<noteq> 0"
  shows "pow2 (double_exponent x) \<le> \<bar>x\<bar> \<and> \<bar>x\<bar> < pow2 (double_exponent x + 1)"
proof -
  define a where "a = \<bar>x\<bar>"
  have a: "0 < a" using assms by (simp add: a_def)
  show ?thesis
  proof (cases "1 \<le> a")
    case True
    define B where "B = bitlen \<lfloor>a\<rfloor>"
    have b: "2 ^ nat (B - 1) \<le> a" "a < 2 ^ nat B" "1 \<le> B"
      using floor_bitlen_bounds [OF True] by (simp_all add: B_def)
    have e: "double_exponent x = B - 1"
      using True by (simp add: double_exponent_def a_def [symmetric] B_def Let_def)
    show ?thesis
      using b by (simp add: e a_def [symmetric] pow2_nonneg_exp)
  next
    case False
    then have inv: "1 \<le> 1 / a" using a by simp
    define B where "B = bitlen \<lfloor>1 / a\<rfloor>"
    define k where "k = B - 1"
    have b: "2 ^ nat k \<le> 1 / a" "1 / a < 2 ^ nat B" "0 \<le> k"
      using floor_bitlen_bounds [OF inv] by (simp_all add: B_def k_def)
    have B: "nat B = Suc (nat k)" using b(3) by (simp add: k_def nat_diff_distrib)
    have up: "a * 2 ^ nat k \<le> 1"
      using b(1) a by (simp add: field_simps)
    have lo: "1 < a * (2 * 2 ^ nat k)"
      using b(2) a by (simp add: B field_simps)
    show ?thesis
    proof (cases "a * 2 ^ nat k = 1")
      case True
      have e: "double_exponent x = - k"
        using False True
        by (simp add: double_exponent_def a_def [symmetric] B_def [symmetric] k_def [symmetric] Let_def)
      have k1: "1 \<le> k"
      proof (rule ccontr)
        assume "\<not> 1 \<le> k"
        then have "k = 0" using b(3) by simp
        with True False show False by simp
      qed
      have av: "a = 1 / 2 ^ nat k" using True by (simp add: field_simps)
      have "nat k = Suc (nat (k - 1))" using k1 by simp
      then have p: "(2::real) ^ nat k = 2 * 2 ^ nat (k - 1)" by simp
      have "pow2 (- k) = 1 / 2 ^ nat k" using b(3) by (simp add: pow2_neg_exp)
      moreover have "pow2 (- k + 1) = 1 / 2 ^ nat (k - 1)"
        using k1 pow2_neg_exp [of "- k + 1"] by simp
      moreover have "1 / (2 * 2 ^ nat (k - 1)) < 1 / (2::real) ^ nat (k - 1)"
        by (simp add: field_simps)
      ultimately show ?thesis
        using a by (simp add: e a_def [symmetric] av p)
    next
      case ne: False
      have e: "double_exponent x = - k - 1"
        using False ne
        by (simp add: double_exponent_def a_def [symmetric] B_def [symmetric] k_def [symmetric] Let_def)
      have p1: "pow2 (- k - 1) = 1 / (2 * 2 ^ nat k)"
        using b(3) pow2_neg_exp [of "- k - 1"] by (simp add: nat_add_distrib)
      have p2: "pow2 (- k) = 1 / 2 ^ nat k"
        using b(3) pow2_neg_exp [of "- k"] by simp
      have "a * 2 ^ nat k < 1" using up ne by simp
      then have "a < 1 / 2 ^ nat k" by (simp add: field_simps)
      moreover have "1 / (2 * 2 ^ nat k) \<le> a" using lo by (simp add: field_simps)
      ultimately show ?thesis
        by (simp add: e a_def [symmetric] p1 p2)
    qed
  qed
qed

lemma round_half_even_error: "\<bar>of_int (round_half_even y) - y\<bar> \<le> 1 / 2"
proof -
  have "0 \<le> y - of_int \<lfloor>y\<rfloor>" "y - of_int \<lfloor>y\<rfloor> < 1" by linarith+
  then show ?thesis
    by (auto simp add: round_half_even_def Let_def abs_le_iff)
qed

lemma round_to_double_error:
  "\<bar>round_to_double x - x\<bar> \<le> pow2 (max (double_exponent x) (- 1022) - 52) / 2"
proof (cases "x = 0")
  case True
  then show ?thesis using pow2_pos [of "max (double_exponent x) (- 1022) - 52"]
    by (simp add: round_to_double_def)
next
  case False
  define q where "q = pow2 (max (double_exponent x) (- 1022) - 52)"
  have q: "0 < q" by (simp add: q_def pow2_pos)
  have "round_to_double x - x = (of_int (round_half_even (x / q)) - x / q) * q"
    using False q by (simp add: round_to_double_def q_def [symmetric] Let_def field_simps)
  then have "\<bar>round_to_double x - x\<bar> = \<bar>of_int (round_half_even (x / q)) - x / q\<bar> * q"
    using q by (simp add: abs_mult)
  also have "\<dots> \<le> 1 / 2 * q"
    using round_half_even_error [of "x / q"] q by (intro mult_right_mono) simp_all
  finally show ?thesis by (simp add: q_def)
qed



section \<open>Properties of the structural analysis\<close>

lemma disqualify_apply_override_rules:
  "disqualify (apply_override_rules ls a) =
     (disqualify a \<or> rule_1 ls \<or> rule_2 ls \<or> rule_3 ls \<or> rule_4 ls)"
  by (simp add: apply_override_rules_def disqualify_with_def warn_with_def Let_def)

lemma last_apply_override_rules:
  "rule_5 ls \<Longrightarrow>
   last (override_rules_triggered (apply_override_rules ls a)) =
     ''COMPETITIVE_PRESSURE + LOW_MARGINS = No moat, commodity pricing''"
  by (simp add: apply_override_rules_def warn_with_def Let_def)

lemma amplification_rules_keeps:
  "disqualify (amplification_rules ls a) = disqualify a"
  "override_rules_triggered (amplification_rules ls a) = override_rules_triggered a"
  by (simp_all add: amplification_rules_def Let_def)

lemma consistency_check_keeps:
  "disqualify (consistency_check ls a) = disqualify a"
  "override_rules_triggered (consistency_check ls a) = override_rules_triggered a"
  by (simp_all add: consistency_check_def Let_def)

lemma disqualify_analyze:
  "disqualify (analyze_structural_patterns ls) =
     (rule_1 ls \<or> rule_2 ls \<or> rule_3 ls \<or> rule_4 ls)"
  by (simp add: analyze_structural_patterns_def Let_def consistency_check_keeps
        amplification_rules_keeps disqualify_apply_override_rules)

lemma override_rules_analyze:
  "override_rules_triggered (analyze_structural_patterns ls) =
     override_rules_triggered (apply_override_rules ls
       \<lparr>disqualify = False, amplify = False, override_rules_triggered = [],
        pattern_matches = [], cross_layer_signals = []\<rparr>)"
  by (simp add: analyze_structural_patterns_def Let_def consistency_check_keeps
        amplification_rules_keeps)

lemma distressed_layers_disqualified:
  "disqualify (analyze_structural_patterns distressed_layers)"
  by (simp add: disqualify_analyze rule_3_def distressed_layers_def layers_get_def
        get_or_def flags_of_def)

text \<open>
  C9. When the competitive layer's risk level is high or critical and the business
  layer carries the flag LOW_MARGINS, the analysis ends its list of triggered rules
  with the competitive-pressure message, and it disqualifies exactly when one of the
  rules 1 to 4 holds: rule 5 never disqualifies by itself.
\<close>

theorem competitive_pressure_warns_only:
  assumes "risk_level (layers_get ls ''competitive'') = Some ''high'' \<or>
           risk_level (layers_get ls ''competitive'') = Some ''critical''"
    and "''LOW_MARGINS'' \<in> set (flags_of (layers_get ls ''business_model''))"
  shows "last (override_rules_triggered (analyze_structural_patterns ls)) =
           ''COMPETITIVE_PRESSURE + LOW_MARGINS = No moat, commodity pricing'' \<and>
         (disqualify (analyze_structural_patterns ls) \<longleftrightarrow>
            rule_1 ls \<or> rule_2 ls \<or> rule_3 ls \<or> rule_4 ls)"
proof -
  from assms have "rule_5 ls"
    by (auto simp add: rule_5_def Let_def)
  then show ?thesis
    by (simp add: override_rules_analyze last_apply_override_rules disqualify_analyze)
qed

theorem competitive_pressure_warns_only_witness:
  "(risk_level (layers_get commodity_layers ''competitive'') = Some ''high'' \<or>
    risk_level (layers_get commodity_layers ''competitive'') = Some ''critical'') \<and>
   ''LOW_MARGINS'' \<in> set (flags_of (layers_get commodity_layers ''business_model'')) \<and>
   last (override_rules_triggered (analyze_structural_patterns commodity_layers)) =
     ''COMPETITIVE_PRESSURE + LOW_MARGINS = No moat, commodity pricing'' \<and>
   \<not> disqualify (analyze_structural_patterns commodity_layers)"
proof -
  have h1: "risk_level (layers_get commodity_layers ''competitive'') = Some ''high'' \<or>
            risk_level (layers_get commodity_layers ''competitive'') = Some ''critical''"
    by (simp add: commodity_layers_def layers_get_def get_or_def)
  have h2: "''LOW_MARGINS'' \<in> set (flags_of (layers_get commodity_layers ''business_model''))"
    by (simp add: commodity_layers_def layers_get_def get_or_def flags_of_def)
  have none: "\<not> (rule_1 commodity_layers \<or> rule_2 commodity_layers \<or>
                 rule_3 commodity_layers \<or> rule_4 commodity_layers)"
    by (simp add: rule_1_def rule_2_def rule_3_def rule_4_def commodity_layers_def
          layers_get_def get_or_def flags_of_def empty_dict_def)
  show ?thesis
    using h1 h2 none competitive_pressure_warns_only [OF h1 h2] by simp
qed

section \<open>Properties of the action resolver\<close>

text \<open>
  C1. Whenever the structural analysis has \<open>disqualify\<close> set, the action resolver
  returns conviction AVOID and action DO_NOT_TRADE, with the triggered rules as the
  reasoning, whatever the weighted score, the belief state and the layers are.
\<close>

theorem disqualify_dominates:
  "disqualify sa \<Longrightarrow>
   determine_action fmt ws sa bs ls =
     (''AVOID'', ''DO_NOT_TRADE'',
      ''Structural disqualifiers: '' @ join '', '' (override_rules_triggered sa))"
  by (simp add: determine_action_def)

theorem disqualify_dominates_witness:
  "disqualify (analyze_structural_patterns distressed_layers) \<and>
   determine_action exact_format 95 (analyze_structural_patterns distressed_layers)
       bullish_belief distressed_layers =
     (''AVOID'', ''DO_NOT_TRADE'',
      ''Structural disqualifiers: '' @
        join '', '' (override_rules_triggered (analyze_structural_patterns distressed_layers)))"
  using distressed_layers_disqualified
    disqualify_dominates [OF distressed_layers_disqualified,
      of exact_format 95 bullish_belief distressed_layers]
  by simp

section \<open>Properties of the belief state\<close>

text \<open>
  C2. For every layer map and every structural analysis, the four probabilities of
  the returned belief state sum to exactly 1.
\<close>

theorem probability_closure:
  "bull_prob (compute_belief_state ls sa) + bear_prob (compute_belief_state ls sa) +
   distress_prob (compute_belief_state ls sa) + neutral_prob (compute_belief_state ls sa) = 1"
  by (simp add: compute_belief_state_def normalize_probabilities_def Let_def split: prod.splits)

text \<open>
  C3. When the structural analysis disqualifies, the values that reach the
  normalisation are bull 0.05, bear 0.70 and distress min(2 d, 0.50), where d is the
  distress probability after the multiplicative updates; the bull and bear values of
  those updates are discarded, and the returned belief state is the normalisation of
  the forced triple.
\<close>

theorem disqualify_forces_belief:
  assumes "disqualify sa"
  shows "structural_override sa (belief_evidence ls) =
           (0.05, 0.7, min (snd (snd (belief_evidence ls)) * 2) 0.5) \<and>
         compute_belief_state ls sa =
           normalize_probabilities (0.05, 0.7, min (snd (snd (belief_evidence ls)) * 2) 0.5)"
  using assms
  by (simp add: compute_belief_state_def structural_override_def split: prod.splits)

lemma belief_evidence_distressed_layers:
  "belief_evidence distressed_layers = (0.3, 0.2, 0.25)"
  by (simp add: belief_evidence_def distressed_layers_def layers_get_def get_or_def
        create_empty_def Let_def)

theorem disqualify_forces_belief_witness:
  "disqualify (analyze_structural_patterns distressed_layers) \<and>
   structural_override (analyze_structural_patterns distressed_layers)
       (belief_evidence distressed_layers) = (0.05, 0.7, 0.5) \<and>
   compute_belief_state distressed_layers (analyze_structural_patterns distressed_layers) =
     \<lparr>bull_prob = 0.04, bear_prob = 0.56, distress_prob = 0.4, neutral_prob = 0\<rparr>"
  using distressed_layers_disqualified
    disqualify_forces_belief [OF distressed_layers_disqualified, of distressed_layers]
  by (simp add: belief_evidence_distressed_layers normalize_probabilities_def)






section \<open>Properties of the weighted score\<close>





section \<open>Properties of the synthesis on empty layers\<close>

lemma accumulate_half:
  assumes "\<And>k l. map_of ls k = Some l \<Longrightarrow> get_or (score l) 5 = 5"
    and "accumulate ls ws ks (t, w, bd) = (t', w', bd')"
    and "t = 5 * w"
  shows "t' = 5 * w'"
  using assms(2-)
proof (induction ks arbitrary: t w bd)
  case Nil
  then show ?case by simp
next
  case (Cons p ks)
  obtain layer_key weight_key where p: "p = (layer_key, weight_key)" by (cases p)
  show ?case
  proof (cases "map_of ls layer_key")
    case None
    with Cons p show ?thesis by simp
  next
    case (Some l)
    define x where "x = get_or (map_of ws weight_key) 1"
    have s: "get_or (score l) 5 = 5" using Some by (rule assms(1))
    have step: "accumulate ls ws ks (t + 5 * x, w + x,
        bd @ [(layer_key, \<lparr>raw = 5, weight = x, weighted = 5 * x\<rparr>)]) = (t', w', bd')"
      using Cons.prems(1) p Some s by (simp add: x_def Let_def)
    have "t + 5 * x = 5 * (w + x)" using Cons.prems(2) by (simp add: distrib_left)
    then show ?thesis using Cons.IH [OF step] by simp
  qed
qed

lemma map_of_empty_layers:
  "map_of (empty_layers nr) k = Some l \<Longrightarrow> \<exists>reason. l = create_empty reason"
  by (auto simp add: empty_layers_def dest!: map_of_SomeD)

lemma layers_get_empty_layers:
  "(\<exists>reason. layers_get (empty_layers nr) k = create_empty reason) \<or>
   layers_get (empty_layers nr) k = empty_dict"
  by (cases "map_of (empty_layers nr) k")
     (auto simp add: layers_get_def get_or_def dest: map_of_empty_layers)

lemma empty_layers_fields:
  "flags_of (layers_get (empty_layers nr) k) = []"
  "get_or (score (layers_get (empty_layers nr) k)) 5 = 5"
  "risk_level (layers_get (empty_layers nr) k) \<noteq> Some ''critical''"
  "risk_level (layers_get (empty_layers nr) k) \<noteq> Some ''high''"
  using layers_get_empty_layers [of nr k]
  by (auto simp add: flags_of_def get_or_def create_empty_def empty_dict_def)

lemma empty_layers_trajectories:
  "map (\<lambda>(name, layer). trajectory layer) (empty_layers nr) =
     replicate (length nr) (Some ''unknown'')"
  by (induction nr) (auto simp add: empty_layers_def create_empty_def)

lemma count_list_replicate_other:
  "x \<noteq> y \<Longrightarrow> count_list (replicate n x) y = 0"
  by (induction n) auto

lemma belief_evidence_empty_layers:
  "belief_evidence (empty_layers nr) = (0.3, 0.2, 0.05)"
  by (simp add: belief_evidence_def Let_def empty_layers_fields empty_layers_trajectories
        count_list_replicate_other)

lemma not_disqualified_empty_layers:
  "\<not> disqualify (analyze_structural_patterns (empty_layers nr))"
  by (simp add: disqualify_analyze rule_1_def rule_2_def rule_3_def rule_4_def Let_def
        empty_layers_fields)

lemma belief_empty_layers:
  "compute_belief_state (empty_layers nr) (analyze_structural_patterns (empty_layers nr)) =
     \<lparr>bull_prob = 0.3, bear_prob = 0.2, distress_prob = 0.05, neutral_prob = 0.45\<rparr>"
  by (simp add: compute_belief_state_def belief_evidence_empty_layers structural_override_def
        not_disqualified_empty_layers normalize_probabilities_def)

lemma score_empty_layers:
  "fst (calculate_weighted_score (empty_layers nr) ws) = 50"
proof -
  obtain t w bd where acc: "accumulate (empty_layers nr) ws layer_mapping (0, 0, []) = (t, w, bd)"
    by (cases "accumulate (empty_layers nr) ws layer_mapping (0, 0, [])") auto
  have five: "\<And>k l. map_of (empty_layers nr) k = Some l \<Longrightarrow> get_or (score l) 5 = 5"
    by (auto simp add: get_or_def create_empty_def dest!: map_of_empty_layers)
  have "t = 5 * w"
    by (rule accumulate_half [OF five acc]) simp_all
  then show ?thesis
    by (simp add: calculate_weighted_score_def acc)
qed

lemma py_round_50: "py_round 50 2 = 50"
  by (simp add: py_round_def round_half_even_def)

text \<open>
  C5. Whatever layers are named and whatever the reasons are, when every layer is
  \<^verbatim>\<open>create_empty(reason)\<close> the synthesis returns the weighted score 50, the
  conviction AVOID and the action SPECULATION_ONLY, for every engine, ticker, sector
  and industry. The non-empty subsets of the seven canonical names are instances. The
  model of \<^verbatim>\<open>synthesize\<close> is a total function: on these inputs no division,
  lookup or comparison of the source can raise.
\<close>

theorem all_empty_layers_degenerate_case:
  "weighted_score (synthesize self fmt (empty_layers nr) tkr sector industry) = 50 \<and>
   conviction (synthesize self fmt (empty_layers nr) tkr sector industry) = ''AVOID'' \<and>
   action (synthesize self fmt (empty_layers nr) tkr sector industry) = ''SPECULATION_ONLY''"
proof -
  define ws where "ws = get_weights self sector industry"
  obtain s bd where c: "calculate_weighted_score (empty_layers nr) ws = (s, bd)"
    by (cases "calculate_weighted_score (empty_layers nr) ws") auto
  have s: "s = 50" using score_empty_layers [of nr ws] by (simp add: c)
  show ?thesis
    by (simp add: synthesize_def Let_def ws_def [symmetric] c s belief_empty_layers py_round_50
          determine_action_def not_disqualified_empty_layers)
qed

section \<open>Properties of the weight resolution\<close>

text \<open>
  C8. The industry and sector branches of \<^verbatim>\<open>_get_weights\<close> drop the keys with a
  leading underscore; the default branch returns the default entry as loaded. With a
  default entry that carries such a key, the mapping returned for an absent sector and
  industry contains it, while the sector branch on the same table filters.
\<close>

theorem default_weights_keep_private_keys:
  "get_weights (init private_default_table) None None =
     [(''_comment'', 1), (''business_model'', 1.5)] \<and>
   startswith_underscore ''_comment'' \<and>
   get_weights (init private_default_table) (Some ''Technology'') None =
     [(''business_model'', 4)]"
  by (simp add: get_weights_def init_def private_default_table_def get_or_def
        startswith_underscore_def)

section \<open>Properties of the temporal engine\<close>

lemma map_of_write_file: "map_of (write_file files name content) name = Some content"
  by (induction files name content rule: write_file.induct) auto

lemma snapshot_count_save_analysis:
  "snapshot_count (save_analysis cache now t a s) t = snapshot_count cache t + 1"
  by (simp add: snapshot_count_def save_analysis_def Let_def map_of_write_file
        split: option.splits)

lemma map_of_save_analysis:
  "map_of (save_analysis cache now t a s) t \<noteq> None"
  by (simp add: save_analysis_def Let_def map_of_write_file)

lemma count_one_save: "snapshot_count one_save ''ACME'' = 1"
  by (simp add: one_save_def snapshot_count_save_analysis) (simp add: snapshot_count_def)

lemma count_two_saves: "snapshot_count two_saves ''ACME'' = 2"
  by (simp add: two_saves_def snapshot_count_save_analysis count_one_save)

text \<open>
  C6, as stated, fails: after a single saved snapshot the result is the note dict, not
  \<^verbatim>\<open>None\<close>.
\<close>

theorem one_snapshot_is_not_null:
  "get_temporal_analysis one_save ''ACME'' =
     Some (Insufficient_history ''Insufficient history (need 2+ analyses)'' 1)"
  by (simp add: get_temporal_analysis_def one_save_def save_analysis_def Let_def)

text \<open>
  C6, amended. \<^verbatim>\<open>get_temporal_analysis\<close> returns \<^verbatim>\<open>None\<close> exactly when the
  ticker has no history file; with a history of fewer than 2 snapshots it returns the
  note dict carrying the snapshot count; it returns a delta record exactly when at
  least 2 snapshots are stored. Every \<^verbatim>\<open>save_analysis\<close> leaves a history file and
  adds one snapshot.
\<close>

theorem temporal_analysis_cases:
  "(get_temporal_analysis cache t = None \<longleftrightarrow> map_of cache t = None) \<and>
   (map_of cache t \<noteq> None \<and> snapshot_count cache t < 2 \<longrightarrow>
      get_temporal_analysis cache t =
        Some (Insufficient_history ''Insufficient history (need 2+ analyses)''
                (snapshot_count cache t))) \<and>
   (is_delta (get_temporal_analysis cache t) \<longleftrightarrow> 2 \<le> snapshot_count cache t) \<and>
   map_of (save_analysis cache now t a s) t \<noteq> None \<and>
   snapshot_count (save_analysis cache now t a s) t = snapshot_count cache t + 1"
  by (auto simp add: get_temporal_analysis_def snapshot_count_def Let_def
        map_of_save_analysis snapshot_count_save_analysis [unfolded snapshot_count_def]
        split: option.splits)

theorem temporal_analysis_cases_witness:
  "map_of one_save ''ACME'' \<noteq> None \<and> snapshot_count one_save ''ACME'' < 2 \<and>
   get_temporal_analysis one_save ''ACME'' =
     Some (Insufficient_history ''Insufficient history (need 2+ analyses)'' 1) \<and>
   2 \<le> snapshot_count two_saves ''ACME'' \<and>
   is_delta (get_temporal_analysis two_saves ''ACME'')"
proof -
  have h1: "map_of one_save ''ACME'' \<noteq> None"
    by (simp add: one_save_def map_of_save_analysis)
  show ?thesis
    using h1 count_one_save count_two_saves
      temporal_analysis_cases [of one_save "''ACME''" "''2025-04-07T09:30:00''"
        "\<lparr>analysis_layers = Some distressed_layers\<rparr>" distressed_synthesis]
      temporal_analysis_cases [of two_saves "''ACME''" "''2025-04-07T09:30:00''"
        "\<lparr>analysis_layers = Some distressed_layers\<rparr>" distressed_synthesis]
    by simp
qed







end
